theory Spec2Isabelle
  imports Main "HOL-Library.Multiset" "HOL-Library.Sublist"
begin

section \<open>The Azure private-zone DNS provider (providers/dns/azure/private.go)\<close>

text \<open>
  The provider publishes and removes the TXT record of a DNS-01 challenge in an Azure
  private DNS zone. Its three methods \<open>Present\<close>, \<open>CleanUp\<close> and \<open>Timeout\<close> and the helper
  \<open>getHostedZoneID\<close> are embedded below. Everything they call outside the file (the
  challenge helpers of package dns01, the environment reader, the Azure SDK clients) is
  a field of the record \<open>externals\<close>; every call that goes to the network is appended to
  a trace, so that "which calls were made, with which arguments" is part of the result.
\<close>

subsection \<open>Errors\<close>

text \<open>
  A Go \<open>error\<close> value, as far as the file looks at one:
  \<^item> \<open>ErrorString s\<close>: an error with text \<open>s\<close> whose chain holds no \<open>autorest.DetailedError\<close>;
  \<^item> \<open>DetailedError sc s\<close>: an \<open>autorest.DetailedError\<close> with status code \<open>sc\<close> and text
    \<open>s\<close>. The Go field \<open>StatusCode\<close> is an \<open>interface{}\<close> that the SDK fills with an
    \<open>int\<close>; a value of another dynamic type differs from \<open>http.StatusNotFound\<close> like
    any \<open>int\<close> other than 404 does;
  \<^item> \<open>WrapError p e\<close>: \<open>fmt.Errorf(p + "%w", e)\<close>.
\<close>

datatype go_error =
    ErrorString string
  | DetailedError int string
  | WrapError string go_error


text \<open>
  \<open>errors.As(err, &detailed)\<close> with \<open>detailed\<close> an \<open>autorest.DetailedError\<close>: the first
  error of that type on the chain of \<open>err\<close>, here reduced to its status code.
\<close>

fun errors_As_DetailedError :: "go_error \<Rightarrow> int option" where
  "errors_As_DetailedError (ErrorString s) = None"
| "errors_As_DetailedError (DetailedError sc s) = Some sc"
| "errors_As_DetailedError (WrapError p e) = errors_As_DetailedError e"

definition StatusNotFound :: int where
  "StatusNotFound = 404"

subsection \<open>Data\<close>

text \<open>
  \<open>Config\<close> is declared in a sibling file of the package; the fields are the ones
  private.go reads. \<open>TTL\<close> is a Go \<open>int\<close> and \<open>int64(TTL)\<close> keeps its value. The two
  durations are nanosecond counts.
\<close>

record Config =
  PropagationTimeout :: int
  PollingInterval :: int
  TTL :: int
  ResourceManagerEndpoint :: string
  SubscriptionID :: string
  ResourceGroup :: string

text \<open>The authorizer is an opaque credential handle.\<close>

type_synonym Authorizer = string

record dnsProviderPrivate =
  config :: Config
  authorizer :: Authorizer

text \<open>\<open>dns01.ChallengeInfo\<close>, the fields the provider reads.\<close>

record ChallengeInfo =
  EffectiveFQDN :: string
  Value :: string

text \<open>
  The SDK's clients (\<open>RecordSetsClient\<close>, \<open>PrivateZonesClient\<close>) share the fields of its
  \<open>BaseClient\<close>. Field names that several Go structs share are written qualified below
  (\<open>Config.SubscriptionID\<close>, \<open>BaseClient.SubscriptionID\<close>).
\<close>

record BaseClient =
  BaseURI :: string
  SubscriptionID :: string
  Authorizer :: Authorizer

datatype RecordType = TXT

text \<open>
  The SDK's \<open>TxtRecord\<close>, \<open>RecordSetProperties\<close>, \<open>RecordSet\<close> and \<open>PrivateZone\<close>. A Go
  pointer field is an \<open>option\<close>: \<open>None\<close> is \<open>nil\<close>.
\<close>

record TxtRecord =
  Value :: "string list option"

record RecordSetProperties =
  TTL :: "int option"
  TxtRecords :: "TxtRecord list option"

record RecordSet =
  Name :: "string option"
  RecordSetProperties :: "RecordSetProperties option"

record PrivateZone =
  Name :: "string option"

text \<open>\<open>to.String\<close> and \<open>to.StringSlice\<close> of go-autorest: the pointee, or the zero value for nil.\<close>

definition to_String :: "string option \<Rightarrow> string" where
  "to_String s = (case s of Some v \<Rightarrow> v | None \<Rightarrow> [])"

definition to_StringSlice :: "string list option \<Rightarrow> string list" where
  "to_StringSlice s = (case s of Some v \<Rightarrow> v | None \<Rightarrow> [])"

subsection \<open>The outside world\<close>

text \<open>
  What the provider calls and does not define. Each network endpoint is called at most
  once in one run of \<open>Present\<close> or \<open>CleanUp\<close>, so its answer during that run is a function
  of the call's arguments.
  \<^item> \<open>EnvZoneName\<close>: the name of the environment variable holding the zone override;
  \<^item> \<open>GetOrFile\<close>: \<open>env.GetOrFile\<close>, a local read of the environment or of a file;
  \<^item> \<open>GetChallengeInfo\<close>, \<open>FindZoneByFqdn\<close>, \<open>UnFqdn\<close>, \<open>ExtractSubDomain\<close>: package dns01;
  \<^item> \<open>PrivateZones_Get\<close>, \<open>RecordSets_Get\<close>, \<open>RecordSets_CreateOrUpdate\<close>,
    \<open>RecordSets_Delete\<close>: the SDK's client methods. \<open>RecordSets_Get\<close> answers with a
    record set and an error at once, as the Go method does, since \<open>Present\<close> reads the
    record set after a swallowed error.
\<close>

record externals =
  EnvZoneName :: string
  GetOrFile :: "string \<Rightarrow> string"
  GetChallengeInfo :: "string \<Rightarrow> string \<Rightarrow> ChallengeInfo"
  FindZoneByFqdn :: "string \<Rightarrow> go_error + string"
  UnFqdn :: "string \<Rightarrow> string"
  ExtractSubDomain :: "string \<Rightarrow> string \<Rightarrow> go_error + string"
  PrivateZones_Get :: "BaseClient \<Rightarrow> string \<Rightarrow> string \<Rightarrow> go_error + PrivateZone"
  RecordSets_Get ::
    "BaseClient \<Rightarrow> string \<Rightarrow> string \<Rightarrow> RecordType \<Rightarrow> string \<Rightarrow> RecordSet \<times> go_error option"
  RecordSets_CreateOrUpdate ::
    "BaseClient \<Rightarrow> string \<Rightarrow> string \<Rightarrow> RecordType \<Rightarrow> string \<Rightarrow> RecordSet \<Rightarrow> string \<Rightarrow> string
      \<Rightarrow> go_error option"
  RecordSets_Delete ::
    "BaseClient \<Rightarrow> string \<Rightarrow> string \<Rightarrow> RecordType \<Rightarrow> string \<Rightarrow> string \<Rightarrow> go_error option"

text \<open>The network calls, as the trace records them.\<close>

datatype call =
    FindZoneByFqdn_call string
  | PrivateZones_Get_call BaseClient string string
  | RecordSets_Get_call BaseClient string string RecordType string
  | RecordSets_CreateOrUpdate_call BaseClient string string RecordType string RecordSet string string
  | RecordSets_Delete_call BaseClient string string RecordType string string

text \<open>
  \<open>privatedns.NewRecordSetsClientWithBaseURI\<close> and \<open>NewPrivateZonesClientWithBaseURI\<close>
  followed by the assignment of the authorizer.
\<close>

definition NewClientWithBaseURI :: "string \<Rightarrow> string \<Rightarrow> BaseClient" where
  "NewClientWithBaseURI baseURI subscriptionID =
     \<lparr>BaseURI = baseURI, BaseClient.SubscriptionID = subscriptionID, Authorizer = []\<rparr>"

definition client_of :: "dnsProviderPrivate \<Rightarrow> BaseClient" where
  "client_of d =
     (NewClientWithBaseURI (ResourceManagerEndpoint (config d)) (Config.SubscriptionID (config d)))
       \<lparr>Authorizer := authorizer d\<rparr>"

subsection \<open>Timeout\<close>

definition Timeout :: "dnsProviderPrivate \<Rightarrow> int \<times> int" where
  "Timeout d = (PropagationTimeout (config d), PollingInterval (config d))"

subsection \<open>getHostedZoneID\<close>

definition getHostedZoneID ::
  "externals \<Rightarrow> dnsProviderPrivate \<Rightarrow> string \<Rightarrow> (go_error + string) \<times> call list" where
  "getHostedZoneID ex d fqdn =
     (let zone = GetOrFile ex (EnvZoneName ex) in
      if zone \<noteq> [] then (Inr zone, [])
      else
        (case FindZoneByFqdn ex fqdn of
           Inl err \<Rightarrow> (Inl err, [FindZoneByFqdn_call fqdn])
         | Inr authZone \<Rightarrow>
             (let dc = client_of d;
                  tr = [FindZoneByFqdn_call fqdn,
                        PrivateZones_Get_call dc (ResourceGroup (config d)) (UnFqdn ex authZone)]
              in case PrivateZones_Get ex dc (ResourceGroup (config d)) (UnFqdn ex authZone) of
                   Inl err \<Rightarrow> (Inl err, tr)
                 | Inr zone \<Rightarrow> (Inr (to_String (PrivateZone.Name zone)), tr))))"

subsection \<open>Present\<close>

text \<open>
  \<open>uniqRecords\<close> is a Go \<open>map[string]struct{}\<close> used as a set: here the list of its keys,
  without repetition, in the order of their first insertion. \<open>map_store k m\<close> is
  \<open>m[k] = struct{}{}\<close>.
\<close>

definition map_store :: "string \<Rightarrow> string list \<Rightarrow> string list" where
  "map_store k m = (if k \<in> set m then m else m @ [k])"

text \<open>
  The body of the loop over \<open>*rset.TxtRecords\<close>: the first string of the record's value
  list is stored, when the list has one.
\<close>

definition merge_step :: "TxtRecord \<Rightarrow> string list \<Rightarrow> string list" where
  "merge_step txtRecord uniq =
     (let values = to_StringSlice (TxtRecord.Value txtRecord) in
      if length values > 0 then map_store (values ! 0) uniq else uniq)"

text \<open>
  The map after the loop. The condition
  \<open>rset.RecordSetProperties != nil && rset.TxtRecords != nil\<close> is the two \<open>case\<close>s
  (\<open>TxtRecords\<close> is read through the embedded properties pointer).
\<close>

definition uniqRecords :: "string \<Rightarrow> RecordSet \<Rightarrow> string list" where
  "uniqRecords v rset =
     (case RecordSetProperties rset of
        None \<Rightarrow> [v]
      | Some props \<Rightarrow>
          (case TxtRecords props of
             None \<Rightarrow> [v]
           | Some recs \<Rightarrow> fold merge_step recs [v]))"

text \<open>
  Go leaves the order of \<open>for txt := range uniqRecords\<close> open: each key is visited once,
  in an order the runtime picks. The order is the parameter \<open>range_order\<close>, a function
  that permutes the keys (\<open>is_range_order\<close>).
\<close>

definition is_range_order :: "(string list \<Rightarrow> string list) \<Rightarrow> bool" where
  "is_range_order f = (\<forall>ks. mset (f ks) = mset ks)"

definition txtRecords_of :: "(string list \<Rightarrow> string list) \<Rightarrow> string list \<Rightarrow> TxtRecord list" where
  "txtRecords_of range_order uniq = map (\<lambda>txt. \<lparr>TxtRecord.Value = Some [txt]\<rparr>) (range_order uniq)"

definition rec_of :: "dnsProviderPrivate \<Rightarrow> string \<Rightarrow> TxtRecord list \<Rightarrow> RecordSet" where
  "rec_of d subDomain txtRecords =
     \<lparr>RecordSet.Name = Some subDomain,
      RecordSetProperties =
        Some \<lparr>RecordSetProperties.TTL = Some (Config.TTL (config d)), TxtRecords = Some txtRecords\<rparr>\<rparr>"

definition Errorf_azure :: "go_error \<Rightarrow> go_error" where
  "Errorf_azure err = WrapError ''azure: '' err"

text \<open>
  The error of the record read that \<open>Present\<close> returns: \<open>err != nil\<close> and
  \<open>!errors.As(err, &detailed) || detailed.StatusCode != http.StatusNotFound\<close>.
\<close>

definition read_failure :: "go_error option \<Rightarrow> go_error option" where
  "read_failure err =
     (case err of
        None \<Rightarrow> None
      | Some e \<Rightarrow> if errors_As_DetailedError e \<noteq> Some StatusNotFound then Some e else None)"

definition Present ::
  "externals \<Rightarrow> (string list \<Rightarrow> string list) \<Rightarrow> dnsProviderPrivate \<Rightarrow> string \<Rightarrow> string \<Rightarrow> string
     \<Rightarrow> go_error option \<times> call list" where
  "Present ex range_order d domain token keyAuth =
     (let info = GetChallengeInfo ex domain keyAuth in
      case getHostedZoneID ex d (EffectiveFQDN info) of
        (Inl err, tr) \<Rightarrow> (Some (Errorf_azure err), tr)
      | (Inr zone, tr) \<Rightarrow>
          (let rsc = client_of d in
           case ExtractSubDomain ex (EffectiveFQDN info) zone of
             Inl err \<Rightarrow> (Some (Errorf_azure err), tr)
           | Inr subDomain \<Rightarrow>
               (let (rset, err) =
                      RecordSets_Get ex rsc (ResourceGroup (config d)) zone TXT subDomain;
                    tr2 = tr @ [RecordSets_Get_call rsc (ResourceGroup (config d)) zone TXT subDomain]
                in case read_failure err of
                     Some e \<Rightarrow> (Some (Errorf_azure e), tr2)
                   | None \<Rightarrow>
                       (let uniq = uniqRecords (ChallengeInfo.Value info) rset;
                            txtRecords = txtRecords_of range_order uniq;
                            rec = rec_of d subDomain txtRecords;
                            tr3 = tr2 @ [RecordSets_CreateOrUpdate_call rsc (ResourceGroup (config d))
                                           zone TXT subDomain rec [] []]
                        in case RecordSets_CreateOrUpdate ex rsc (ResourceGroup (config d))
                                  zone TXT subDomain rec [] [] of
                             Some e \<Rightarrow> (Some (Errorf_azure e), tr3)
                           | None \<Rightarrow> (None, tr3)))))"

subsection \<open>CleanUp\<close>

definition CleanUp ::
  "externals \<Rightarrow> dnsProviderPrivate \<Rightarrow> string \<Rightarrow> string \<Rightarrow> string \<Rightarrow> go_error option \<times> call list" where
  "CleanUp ex d domain token keyAuth =
     (let info = GetChallengeInfo ex domain keyAuth in
      case getHostedZoneID ex d (EffectiveFQDN info) of
        (Inl err, tr) \<Rightarrow> (Some (Errorf_azure err), tr)
      | (Inr zone, tr) \<Rightarrow>
          (case ExtractSubDomain ex (EffectiveFQDN info) zone of
             Inl err \<Rightarrow> (Some (Errorf_azure err), tr)
           | Inr subDomain \<Rightarrow>
               (let rsc = client_of d;
                    tr2 = tr @ [RecordSets_Delete_call rsc (ResourceGroup (config d)) zone TXT subDomain []]
                in case RecordSets_Delete ex rsc (ResourceGroup (config d)) zone TXT subDomain [] of
                     Some e \<Rightarrow> (Some (Errorf_azure e), tr2)
                   | None \<Rightarrow> (None, tr2))))"

subsection \<open>Reading a record set and a trace\<close>

text \<open>The value lists of a record set's TXT records, in their order; none when a pointer is nil.\<close>

definition value_lists :: "RecordSet \<Rightarrow> string list list" where
  "value_lists rset =
     (case RecordSetProperties rset of
        None \<Rightarrow> []
      | Some props \<Rightarrow>
          (case TxtRecords props of
             None \<Rightarrow> []
           | Some recs \<Rightarrow> map (\<lambda>r. to_StringSlice (TxtRecord.Value r)) recs))"

text \<open>The first strings of the value lists that have one.\<close>

definition first_strings :: "string list list \<Rightarrow> string list" where
  "first_strings vss = map hd (filter (\<lambda>vs. vs \<noteq> []) vss)"

datatype endpoint = SuffixWalk | ZoneRead | RecordRead | RecordWrite | RecordDelete

fun endpoint_of :: "call \<Rightarrow> endpoint" where
  "endpoint_of (FindZoneByFqdn_call fqdn) = SuffixWalk"
| "endpoint_of (PrivateZones_Get_call c rg z) = ZoneRead"
| "endpoint_of (RecordSets_Get_call c rg z t n) = RecordRead"
| "endpoint_of (RecordSets_CreateOrUpdate_call c rg z t n r m e) = RecordWrite"
| "endpoint_of (RecordSets_Delete_call c rg z t n m) = RecordDelete"

definition is_record_call :: "call \<Rightarrow> bool" where
  "is_record_call c = (endpoint_of c \<in> {RecordRead, RecordWrite, RecordDelete})"



subsection \<open>Subdomain extraction, from the specification\<close>

text \<open>
  Modelled from the spec: the names that \<open>dns01.ExtractSubDomain\<close>, which is not among the
  sources, compares. The specification's zone is "a DNS zone name without trailing dot" and
  its example FQDN ends with a dot, so both names are compared with their final dot.
\<close>

definition with_final_dot :: "string \<Rightarrow> string" where
  "with_final_dot s = (if s \<noteq> [] \<and> last s = CHR ''.'' then s else s @ ''.'')"

text \<open>
  Modelled from the spec: "stripping the zone suffix from the effective FQDN", for
  \<open>dns01.ExtractSubDomain\<close>, which is not among the sources. \<open>None\<close> when the FQDN
  does not extend the zone name, the empty name when the FQDN is the zone name.
\<close>

definition strip_zone_suffix :: "string \<Rightarrow> string \<Rightarrow> string option" where
  "strip_zone_suffix fqdn zone =
     (let f = with_final_dot fqdn; z = with_final_dot zone in
      if f = z then Some []
      else if suffix (CHR ''.'' # z) f then Some (take (length f - length z - 1) f)
      else None)"

text \<open>
  Modelled from the spec: \<open>dns01.ExtractSubDomain\<close>, which is not among the sources. The
  specification calls its result "the relative record name obtained by stripping the zone
  suffix from the effective FQDN; must be non-empty after stripping or resolution fails",
  names the error for an "effective FQDN [that] does not extend the resolved zone name",
  and gives one value: FQDN \<open>_acme-challenge.sub.example.com.\<close> and zone \<open>example.com\<close>
  yield \<open>_acme-challenge.sub\<close>.
\<close>

definition ExtractSubDomain_spec :: "string \<Rightarrow> string \<Rightarrow> go_error + string" where
  "ExtractSubDomain_spec fqdn zone =
     (case strip_zone_suffix fqdn zone of
        None \<Rightarrow> Inl (ErrorString ''the FQDN does not extend the zone name'')
      | Some rel \<Rightarrow>
          if rel = [] then Inl (ErrorString ''the relative name is empty'') else Inr rel)"

subsection \<open>A concrete outside world\<close>

text \<open>
  A world to run the provider in: \<open>override\<close> is the content of the zone-override
  variable, \<open>zone_answer\<close> the name the zone-read endpoint returns, \<open>read_answer\<close>,
  \<open>write_answer\<close> and \<open>delete_answer\<close> the answers of the record endpoints. The suffix walk
  finds \<open>example.com.\<close> for every name.
\<close>

definition test_world ::
  "string \<Rightarrow> string option \<Rightarrow> RecordSet \<times> go_error option \<Rightarrow> go_error option \<Rightarrow> go_error option
     \<Rightarrow> externals" where
  "test_world override zone_answer read_answer write_answer delete_answer =
     \<lparr>EnvZoneName = ''AZURE_ZONE_NAME'',
      GetOrFile = (\<lambda>k. if k = ''AZURE_ZONE_NAME'' then override else []),
      GetChallengeInfo =
        (\<lambda>domain keyAuth.
           \<lparr>EffectiveFQDN = ''_acme-challenge.'' @ domain @ ''.'', ChallengeInfo.Value = keyAuth\<rparr>),
      FindZoneByFqdn = (\<lambda>fqdn. Inr ''example.com.''),
      UnFqdn = (\<lambda>name. if name \<noteq> [] \<and> last name = CHR ''.'' then butlast name else name),
      ExtractSubDomain = ExtractSubDomain_spec,
      PrivateZones_Get = (\<lambda>c rg z. Inr \<lparr>PrivateZone.Name = zone_answer\<rparr>),
      RecordSets_Get = (\<lambda>c rg z t n. read_answer),
      RecordSets_CreateOrUpdate = (\<lambda>c rg z t n r m e. write_answer),
      RecordSets_Delete = (\<lambda>c rg z t n m. delete_answer)\<rparr>"

definition test_provider :: dnsProviderPrivate where
  "test_provider =
     \<lparr>config =
        \<lparr>PropagationTimeout = 120000000000, PollingInterval = 2000000000, Config.TTL = 60,
         ResourceManagerEndpoint = ''https://management.azure.com'',
         Config.SubscriptionID = ''sub'', ResourceGroup = ''rg''\<rparr>,
      authorizer = ''token''\<rparr>"

definition no_record_set :: RecordSet where
  "no_record_set = \<lparr>RecordSet.Name = None, RecordSetProperties = None\<rparr>"

definition not_found :: go_error where
  "not_found = DetailedError 404 ''StatusCode=404''"

definition txt_record_set :: "string list option list \<Rightarrow> RecordSet" where
  "txt_record_set vs =
     \<lparr>RecordSet.Name = Some ''_acme-challenge'',
      RecordSetProperties =
        Some \<lparr>RecordSetProperties.TTL = Some 60,
              TxtRecords = Some (map (\<lambda>v. \<lparr>TxtRecord.Value = v\<rparr>) vs)\<rparr>\<rparr>"

text \<open>Instances of the world, one for each situation that is run below.\<close>

text \<open>The record read finds the values \<open>b\<close> and \<open>a\<close>, in that order; every write and delete succeeds.\<close>

definition world_ba :: externals where
  "world_ba = test_world [] (Some ''example.com'')
     (txt_record_set [Some [''b''], Some [''a'']], None) None None"

text \<open>The record read finds what a first \<open>Present\<close> of \<open>c\<close> wrote in the world above.\<close>

definition world_written :: externals where
  "world_written = test_world [] (Some ''example.com'')
     (txt_record_set [Some [''a''], Some [''b''], Some [''c'']], None) None None"

text \<open>The record read finds a record of two strings, a record with a nil value list and one with an empty list.\<close>

definition world_multi :: externals where
  "world_multi = test_world [] (Some ''example.com'')
     (txt_record_set [Some [''b''], Some [''a'', ''z''], None, Some []], None) None None"

text \<open>No record set at the name: the record read answers 404.\<close>

definition world_absent :: externals where
  "world_absent = test_world [] (Some ''example.com'') (no_record_set, Some not_found) None None"

text \<open>The record read fails with a 503.\<close>

definition world_unavailable :: externals where
  "world_unavailable = test_world [] (Some ''example.com'')
     (no_record_set, Some (DetailedError 503 ''StatusCode=503'')) None None"

text \<open>The zone-read endpoint supplies the zone name with a final dot.\<close>

definition world_dotted_zone :: externals where
  "world_dotted_zone = test_world [] (Some ''example.com.'') (no_record_set, Some not_found) None None"

text \<open>The override names a zone that the resource group does not hold: the record endpoints answer 404, the delete included.\<close>

definition world_missing :: externals where
  "world_missing = test_world ''example.com'' None (no_record_set, Some not_found)
     (Some not_found) (Some not_found)"

text \<open>The override names a zone that the challenge name does not lie in.\<close>

definition world_foreign_zone :: externals where
  "world_foreign_zone = test_world ''example.org'' None (no_record_set, Some not_found) None None"

text \<open>The override names the challenge name itself.\<close>

definition world_apex_zone :: externals where
  "world_apex_zone = test_world ''_acme-challenge.example.com'' None (no_record_set, Some not_found) None None"

text \<open>A rate-limit answer.\<close>

definition throttled :: go_error where
  "throttled = DetailedError 429 ''StatusCode=429''"


section \<open>Properties\<close>

subsection \<open>The merge step\<close>

lemma set_map_store: "set (map_store k m) = insert k (set m)"
  by (auto simp: map_store_def)

lemma distinct_map_store: "distinct m \<Longrightarrow> distinct (map_store k m)"
  by (simp add: map_store_def)

lemma set_merge_step:
  "set (merge_step r uniq) =
     set uniq \<union> set (first_strings [to_StringSlice (TxtRecord.Value r)])"
  by (cases "to_StringSlice (TxtRecord.Value r)")
     (auto simp: merge_step_def first_strings_def set_map_store)

lemma distinct_merge_step: "distinct uniq \<Longrightarrow> distinct (merge_step r uniq)"
  by (simp add: merge_step_def Let_def distinct_map_store)

lemma first_strings_Cons:
  "first_strings (vs # vss) = first_strings [vs] @ first_strings vss"
  by (simp add: first_strings_def)

lemma set_fold_merge_step:
  "set (fold merge_step recs uniq) =
     set uniq \<union> set (first_strings (map (\<lambda>r. to_StringSlice (TxtRecord.Value r)) recs))"
proof (induction recs arbitrary: uniq)
  case Nil
  show ?case by (simp add: first_strings_def)
next
  case (Cons r recs)
  have "set (fold merge_step (r # recs) uniq) = set (fold merge_step recs (merge_step r uniq))"
    by simp
  also have "\<dots> = set (merge_step r uniq) \<union>
      set (first_strings (map (\<lambda>r. to_StringSlice (TxtRecord.Value r)) recs))"
    by (rule Cons.IH)
  also have "\<dots> = set uniq \<union>
      set (first_strings (map (\<lambda>r. to_StringSlice (TxtRecord.Value r)) (r # recs)))"
    unfolding set_merge_step by (auto simp: first_strings_def)
  finally show ?case .
qed

lemma distinct_fold_merge_step:
  "distinct uniq \<Longrightarrow> distinct (fold merge_step recs uniq)"
  by (induction recs arbitrary: uniq) (simp_all add: distinct_merge_step)

lemma set_uniqRecords:
  "set (uniqRecords v rset) = insert v (set (first_strings (value_lists rset)))"
  by (simp add: uniqRecords_def value_lists_def set_fold_merge_step first_strings_def
      split: option.splits)

lemma distinct_uniqRecords: "distinct (uniqRecords v rset)"
  by (simp add: uniqRecords_def distinct_fold_merge_step split: option.splits)

lemma value_lists_rec_of:
  "value_lists (rec_of d subDomain (txtRecords_of range_order uniq)) =
     map (\<lambda>txt. [txt]) (range_order uniq)"
  by (simp add: value_lists_def rec_of_def txtRecords_of_def to_StringSlice_def comp_def)

lemma range_order_set: "is_range_order f \<Longrightarrow> set (f ks) = set ks"
  by (metis is_range_order_def mset_eq_setD)

lemma range_order_distinct: "is_range_order f \<Longrightarrow> distinct (f ks) = distinct ks"
  by (metis is_range_order_def mset_eq_imp_distinct_iff)

lemma range_order_singleton: "is_range_order f \<Longrightarrow> f [k] = [k]"
proof -
  assume "is_range_order f"
  then have "mset (f [k]) = {#k#}"
    by (simp add: is_range_order_def)
  then show "f [k] = [k]"
    by simp
qed

lemma Present_reaches_write:
  assumes "getHostedZoneID ex d (EffectiveFQDN (GetChallengeInfo ex domain keyAuth)) = (Inr zone, tr)"
    and "ExtractSubDomain ex (EffectiveFQDN (GetChallengeInfo ex domain keyAuth)) zone = Inr subDomain"
    and "RecordSets_Get ex (client_of d) (ResourceGroup (config d)) zone TXT subDomain = (rset, err)"
    and "read_failure err = None"
    and "rec = rec_of d subDomain (txtRecords_of range_order
            (uniqRecords (ChallengeInfo.Value (GetChallengeInfo ex domain keyAuth)) rset))"
  shows "Present ex range_order d domain token keyAuth =
     (map_option Errorf_azure
        (RecordSets_CreateOrUpdate ex (client_of d) (ResourceGroup (config d)) zone TXT subDomain rec [] []),
      tr @ [RecordSets_Get_call (client_of d) (ResourceGroup (config d)) zone TXT subDomain,
            RecordSets_CreateOrUpdate_call (client_of d) (ResourceGroup (config d)) zone TXT subDomain
              rec [] []])"
  using assms by (simp add: Present_def Let_def split: option.splits)

lemma Present_read_fails:
  assumes "getHostedZoneID ex d (EffectiveFQDN (GetChallengeInfo ex domain keyAuth)) = (Inr zone, tr)"
    and "ExtractSubDomain ex (EffectiveFQDN (GetChallengeInfo ex domain keyAuth)) zone = Inr subDomain"
    and "RecordSets_Get ex (client_of d) (ResourceGroup (config d)) zone TXT subDomain = (rset, err)"
    and "read_failure err = Some e"
  shows "Present ex range_order d domain token keyAuth =
     (Some (Errorf_azure e),
      tr @ [RecordSets_Get_call (client_of d) (ResourceGroup (config d)) zone TXT subDomain])"
  using assms by (simp add: Present_def Let_def)

lemma Present_no_subdomain:
  assumes "getHostedZoneID ex d (EffectiveFQDN (GetChallengeInfo ex domain keyAuth)) = (Inr zone, tr)"
    and "ExtractSubDomain ex (EffectiveFQDN (GetChallengeInfo ex domain keyAuth)) zone = Inl e"
  shows "Present ex range_order d domain token keyAuth = (Some (Errorf_azure e), tr)"
  using assms by (simp add: Present_def Let_def)

lemma Present_no_zone:
  assumes "getHostedZoneID ex d (EffectiveFQDN (GetChallengeInfo ex domain keyAuth)) = (Inl e, tr)"
  shows "Present ex range_order d domain token keyAuth = (Some (Errorf_azure e), tr)"
  using assms by (simp add: Present_def Let_def)

lemma CleanUp_reaches_delete:
  assumes "getHostedZoneID ex d (EffectiveFQDN (GetChallengeInfo ex domain keyAuth)) = (Inr zone, tr)"
    and "ExtractSubDomain ex (EffectiveFQDN (GetChallengeInfo ex domain keyAuth)) zone = Inr subDomain"
  shows "CleanUp ex d domain token keyAuth =
     (map_option Errorf_azure
        (RecordSets_Delete ex (client_of d) (ResourceGroup (config d)) zone TXT subDomain []),
      tr @ [RecordSets_Delete_call (client_of d) (ResourceGroup (config d)) zone TXT subDomain []])"
  using assms by (simp add: CleanUp_def Let_def split: option.splits)

lemma CleanUp_no_subdomain:
  assumes "getHostedZoneID ex d (EffectiveFQDN (GetChallengeInfo ex domain keyAuth)) = (Inr zone, tr)"
    and "ExtractSubDomain ex (EffectiveFQDN (GetChallengeInfo ex domain keyAuth)) zone = Inl e"
  shows "CleanUp ex d domain token keyAuth = (Some (Errorf_azure e), tr)"
  using assms by (simp add: CleanUp_def Let_def)




subsection \<open>Steps of a run\<close>

text \<open>
  What \<open>Present\<close> and \<open>CleanUp\<close> return at each of their exits, and what the trace of the
  zone resolution can hold.
\<close>

lemma getHostedZoneID_no_write:
  assumes "getHostedZoneID ex d fqdn = (r, tr' @ [RecordSets_CreateOrUpdate_call c rg z t n rec m e])"
  shows False
  using assms by (auto simp: getHostedZoneID_def Let_def split: if_splits sum.splits)

lemma getHostedZoneID_no_record_call:
  assumes "getHostedZoneID ex d fqdn = (r, tr)"
  shows "filter is_record_call tr = []"
  using assms
  by (auto simp: getHostedZoneID_def Let_def is_record_call_def split: if_splits sum.splits)

lemma Present_wrote:
  assumes "snd (Present ex ro d domain token keyAuth) =
             tr' @ [RecordSets_CreateOrUpdate_call c rg z t n rec m e]"
  shows "\<exists>sub rset. rec = rec_of d sub (txtRecords_of ro
            (uniqRecords (ChallengeInfo.Value (GetChallengeInfo ex domain keyAuth)) rset))"
proof -
  let ?fqdn = "EffectiveFQDN (GetChallengeInfo ex domain keyAuth)"
  obtain r tr where z: "getHostedZoneID ex d ?fqdn = (r, tr)"
    by (cases "getHostedZoneID ex d ?fqdn")
  show ?thesis
  proof (cases r)
    case (Inl e0)
    have "Present ex ro d domain token keyAuth = (Some (Errorf_azure e0), tr)"
      using z Inl by (intro Present_no_zone) simp
    with assms have "tr = tr' @ [RecordSets_CreateOrUpdate_call c rg z t n rec m e]"
      by simp
    with z show ?thesis
      using getHostedZoneID_no_write by blast
  next
    case (Inr zone)
    note zone = z [unfolded Inr]
    show ?thesis
    proof (cases "ExtractSubDomain ex ?fqdn zone")
      case (Inl e0)
      have "Present ex ro d domain token keyAuth = (Some (Errorf_azure e0), tr)"
        using zone Inl by (intro Present_no_subdomain)
      with assms have "tr = tr' @ [RecordSets_CreateOrUpdate_call c rg z t n rec m e]"
        by simp
      with zone show ?thesis
        using getHostedZoneID_no_write by blast
    next
      case (Inr subDomain)
      obtain rset err where get:
        "RecordSets_Get ex (client_of d) (ResourceGroup (config d)) zone TXT subDomain = (rset, err)"
        by (cases "RecordSets_Get ex (client_of d) (ResourceGroup (config d)) zone TXT subDomain")
      show ?thesis
      proof (cases "read_failure err")
        case None
        from assms show ?thesis
          unfolding Present_reaches_write [OF zone Inr get None refl] by auto
      next
        case (Some e0)
        from assms show ?thesis
          unfolding Present_read_fails [OF zone Inr get Some] by simp
      qed
    qed
  qed
qed






lemma count_list_distinct: "distinct xs \<Longrightarrow> x \<in> set xs \<Longrightarrow> count_list xs x = 1"
  by (induction xs) auto

lemma first_strings_of_records:
  "set (first_strings (map (\<lambda>r. to_StringSlice (TxtRecord.Value r)) recs)) =
     (\<lambda>r. hd (the (TxtRecord.Value r))) `
        {r \<in> set recs. TxtRecord.Value r \<noteq> None \<and> TxtRecord.Value r \<noteq> Some []}"
proof (induction recs)
  case Nil
  show ?case by (simp add: first_strings_def)
next
  case (Cons r recs)
  have split: "{x \<in> set (r # recs). TxtRecord.Value x \<noteq> None \<and> TxtRecord.Value x \<noteq> Some []} =
      (if TxtRecord.Value r \<noteq> None \<and> TxtRecord.Value r \<noteq> Some [] then {r} else {}) \<union>
      {x \<in> set recs. TxtRecord.Value x \<noteq> None \<and> TxtRecord.Value x \<noteq> Some []}"
    by auto
  have "set (first_strings (map (\<lambda>r. to_StringSlice (TxtRecord.Value r)) (r # recs))) =
      set (first_strings [to_StringSlice (TxtRecord.Value r)]) \<union>
      set (first_strings (map (\<lambda>r. to_StringSlice (TxtRecord.Value r)) recs))"
    by (simp add: first_strings_def)
  also have "set (first_strings [to_StringSlice (TxtRecord.Value r)]) =
      (\<lambda>r. hd (the (TxtRecord.Value r))) `
        (if TxtRecord.Value r \<noteq> None \<and> TxtRecord.Value r \<noteq> Some [] then {r} else {})"
    by (cases "TxtRecord.Value r") (auto simp: first_strings_def to_StringSlice_def)
  finally show ?case
    unfolding Cons.IH split image_Un by simp
qed

subsection \<open>Running the concrete worlds\<close>

lemmas test_defs = test_world_def test_provider_def getHostedZoneID_def client_of_def
  NewClientWithBaseURI_def ExtractSubDomain_spec_def strip_zone_suffix_def with_final_dot_def
  to_String_def to_StringSlice_def txt_record_set_def no_record_set_def not_found_def throttled_def
  suffix_to_prefix Let_def

lemmas run_defs = Present_def CleanUp_def uniqRecords_def merge_step_def map_store_def
  txtRecords_of_def rec_of_def read_failure_def Errorf_azure_def StatusNotFound_def
  value_lists_def

lemma is_range_order_rev: "is_range_order rev"
  by (simp add: is_range_order_def)

lemma is_range_order_id: "is_range_order (\<lambda>ks. ks)"
  by (simp add: is_range_order_def)

subsection \<open>Zone resolution\<close>

text \<open>
  C4. When the zone-name override read from the environment or a file is not empty,
  \<open>getHostedZoneID\<close> returns it as it is, for every FQDN and whatever the suffix walk and
  the zone-read endpoint would answer, and the trace of network calls is empty: neither
  of the two is invoked.
\<close>

theorem override_returned_without_network_call:
  assumes "GetOrFile ex (EnvZoneName ex) = override" and "override \<noteq> []"
  shows "getHostedZoneID ex d fqdn = (Inr override, [])"
  using assms by (simp add: getHostedZoneID_def)

theorem override_returned_without_network_call_witness:
  "getHostedZoneID (test_world ''corp.internal'' (Some ''example.com'') (no_record_set, None) None None)
     test_provider ''_acme-challenge.www.example.com.'' = (Inr ''corp.internal'', [])
   \<and> FindZoneByFqdn (test_world ''corp.internal'' (Some ''example.com'') (no_record_set, None) None None)
       ''_acme-challenge.www.example.com.'' = Inr ''example.com.''"
proof -
  have "GetOrFile (test_world ''corp.internal'' (Some ''example.com'') (no_record_set, None) None None)
          (EnvZoneName (test_world ''corp.internal'' (Some ''example.com'') (no_record_set, None) None None))
        = ''corp.internal''"
    by (simp add: test_world_def)
  from override_returned_without_network_call [OF this, of test_provider "''_acme-challenge.www.example.com.''"]
  show ?thesis by (simp add: test_world_def)
qed

text \<open>
  C6, as amended. When no override is configured, the suffix walk finds a candidate and
  the zone-read endpoint answers with a zone, \<open>getHostedZoneID\<close> returns that zone's name
  as the endpoint supplied it (the empty string when the name is nil), after exactly the
  two network calls. Nothing is done to the returned name: the only name that loses a
  final dot is the candidate sent to the endpoint (\<open>UnFqdn\<close>).
\<close>

theorem zone_name_returned_verbatim:
  assumes "GetOrFile ex (EnvZoneName ex) = []"
    and "FindZoneByFqdn ex fqdn = Inr authZone"
    and "PrivateZones_Get ex (client_of d) (ResourceGroup (config d)) (UnFqdn ex authZone) = Inr zone"
  shows "getHostedZoneID ex d fqdn =
     (Inr (case PrivateZone.Name zone of Some name \<Rightarrow> name | None \<Rightarrow> []),
      [FindZoneByFqdn_call fqdn,
       PrivateZones_Get_call (client_of d) (ResourceGroup (config d)) (UnFqdn ex authZone)])"
  using assms by (simp add: getHostedZoneID_def Let_def to_String_def)

theorem zone_name_returned_verbatim_witness:
  "getHostedZoneID world_absent test_provider ''_acme-challenge.example.com.'' =
     (Inr ''example.com'',
      [FindZoneByFqdn_call ''_acme-challenge.example.com.'',
       PrivateZones_Get_call (client_of test_provider) ''rg'' ''example.com''])"
proof -
  have 1: "GetOrFile world_absent (EnvZoneName world_absent) = []"
    by (simp add: world_absent_def test_world_def)
  have 2: "FindZoneByFqdn world_absent ''_acme-challenge.example.com.'' = Inr ''example.com.''"
    by (simp add: world_absent_def test_world_def)
  have 3: "PrivateZones_Get world_absent (client_of test_provider)
      (ResourceGroup (config test_provider)) (UnFqdn world_absent ''example.com.'') =
      Inr \<lparr>PrivateZone.Name = Some ''example.com''\<rparr>"
    by (simp add: world_absent_def test_world_def)
  from zone_name_returned_verbatim [OF 1 2 3]
  show ?thesis by (simp add: world_absent_def test_world_def test_provider_def)
qed

text \<open>
  C6 as stated fails: a zone name that the endpoint supplies with a final dot is
  returned with its final dot.
\<close>

theorem zone_name_trailing_dot_counterexample:
  "PrivateZones_Get world_dotted_zone (client_of test_provider) ''rg'' ''example.com'' =
     Inr \<lparr>PrivateZone.Name = Some ''example.com.''\<rparr>
   \<and> fst (getHostedZoneID world_dotted_zone test_provider ''_acme-challenge.example.com.'') =
       Inr ''example.com.''
   \<and> last ''example.com.'' = CHR ''.''"
  by (simp add: world_dotted_zone_def test_defs)

subsection \<open>Present\<close>

text \<open>
  C1. Let the zone and the subdomain be resolved and let the record read succeed with a
  record set whose TXT records carry the single values \<open>a\<close> and \<open>b\<close>, in either order.
  Then \<open>Present\<close> with the challenge value \<open>c\<close> reads once and writes once, and the
  record set it writes has exactly the value lists \<open>[a]\<close>, \<open>[b]\<close> and \<open>[c]\<close>, each
  once, whatever order the runtime picks for the keys of the map.
\<close>

theorem Present_merges_existing_values:
  assumes ro: "is_range_order range_order"
    and zone: "getHostedZoneID ex d (EffectiveFQDN (GetChallengeInfo ex domain keyAuth)) = (Inr zone, tr)"
    and sub: "ExtractSubDomain ex (EffectiveFQDN (GetChallengeInfo ex domain keyAuth)) zone = Inr subDomain"
    and get: "RecordSets_Get ex (client_of d) (ResourceGroup (config d)) zone TXT subDomain = (rset, None)"
    and existing: "mset (value_lists rset) = {#[a], [b]#}"
    and c: "ChallengeInfo.Value (GetChallengeInfo ex domain keyAuth) = c"
  shows "\<exists>rec. snd (Present ex range_order d domain token keyAuth) =
           tr @ [RecordSets_Get_call (client_of d) (ResourceGroup (config d)) zone TXT subDomain,
                 RecordSets_CreateOrUpdate_call (client_of d) (ResourceGroup (config d)) zone TXT
                   subDomain rec [] []]
         \<and> set (value_lists rec) = {[a], [b], [c]} \<and> distinct (value_lists rec)"
proof -
  define uniq where "uniq = uniqRecords c rset"
  define rec where "rec = rec_of d subDomain (txtRecords_of range_order uniq)"
  have "set (value_lists rset) = {[a], [b]}"
    using existing by (metis mset_eq_setD set_mset_mset set_mset_add_mset_insert set_mset_empty mset.simps list.simps(15) list.set(1) insert_commute)
  then have firsts: "set (first_strings (value_lists rset)) = {a, b}"
    by (auto simp: first_strings_def)
  have uniq: "set uniq = {a, b, c}" "distinct uniq"
    by (auto simp: uniq_def set_uniqRecords firsts distinct_uniqRecords)
  have vals: "value_lists rec = map (\<lambda>txt. [txt]) (range_order uniq)"
    by (simp add: rec_def value_lists_rec_of)
  have "set (value_lists rec) = {[a], [b], [c]}"
    by (simp add: vals range_order_set [OF ro] uniq(1) flip: set_map image_set)
  moreover have "distinct (value_lists rec)"
    by (simp add: vals distinct_map range_order_distinct [OF ro] uniq(2) inj_on_def)
  moreover have "snd (Present ex range_order d domain token keyAuth) =
           tr @ [RecordSets_Get_call (client_of d) (ResourceGroup (config d)) zone TXT subDomain,
                 RecordSets_CreateOrUpdate_call (client_of d) (ResourceGroup (config d)) zone TXT
                   subDomain rec [] []]"
    by (simp add: Present_reaches_write [OF zone sub get _ refl] read_failure_def rec_def uniq_def c)
  ultimately show ?thesis by blast
qed

theorem Present_merges_existing_values_witness:
  "\<exists>rec. snd (Present world_ba rev test_provider ''example.com'' ''tok'' ''c'') =
     [FindZoneByFqdn_call ''_acme-challenge.example.com.'',
      PrivateZones_Get_call (client_of test_provider) ''rg'' ''example.com''] @
     [RecordSets_Get_call (client_of test_provider) ''rg'' ''example.com'' TXT ''_acme-challenge'',
      RecordSets_CreateOrUpdate_call (client_of test_provider) ''rg'' ''example.com'' TXT
        ''_acme-challenge'' rec [] []]
   \<and> set (value_lists rec) = {[''a''], [''b''], [''c'']} \<and> distinct (value_lists rec)"
proof -
  have zone: "getHostedZoneID world_ba test_provider
       (EffectiveFQDN (GetChallengeInfo world_ba ''example.com'' ''c'')) =
     (Inr ''example.com'',
      [FindZoneByFqdn_call ''_acme-challenge.example.com.'',
       PrivateZones_Get_call (client_of test_provider) ''rg'' ''example.com''])"
    by (simp add: world_ba_def test_defs)
  have sub: "ExtractSubDomain world_ba
       (EffectiveFQDN (GetChallengeInfo world_ba ''example.com'' ''c'')) ''example.com'' =
     Inr ''_acme-challenge''"
    by (simp add: world_ba_def test_defs)
  have get: "RecordSets_Get world_ba (client_of test_provider) (ResourceGroup (config test_provider))
       ''example.com'' TXT ''_acme-challenge'' = (txt_record_set [Some [''b''], Some [''a'']], None)"
    by (simp add: world_ba_def test_defs)
  have existing: "mset (value_lists (txt_record_set [Some [''b''], Some [''a'']])) = {#[''a''], [''b'']#}"
    by (simp add: value_lists_def test_defs)
  have c: "ChallengeInfo.Value (GetChallengeInfo world_ba ''example.com'' ''c'') = ''c''"
    by (simp add: world_ba_def test_defs)
  have rg: "ResourceGroup (config test_provider) = ''rg''"
    by (simp add: test_provider_def)
  from Present_merges_existing_values [OF is_range_order_rev zone sub get existing c, of "''tok''"]
  show ?thesis unfolding rg by simp
qed

text \<open>
  C2. Let a first \<open>Present\<close> of the value \<open>v\<close> have written the record set \<open>rec1\<close>, and
  let the record read of a second \<open>Present\<close> of \<open>v\<close> return \<open>rec1\<close>. Then the second
  run writes a record set with the same set of value lists as \<open>rec1\<close>, in which \<open>[v]\<close>
  occurs exactly once. The two runs may see different worlds and different key orders.
\<close>

theorem Present_twice_same_value_set:
  assumes ro1: "is_range_order range_order1" and ro2: "is_range_order range_order2"
    and v1: "ChallengeInfo.Value (GetChallengeInfo ex1 domain keyAuth) = v"
    and v2: "ChallengeInfo.Value (GetChallengeInfo ex2 domain keyAuth) = v"
    and first: "snd (Present ex1 range_order1 d domain token keyAuth) =
                  tr1 @ [RecordSets_CreateOrUpdate_call c1 rg1 z1 t1 n1 rec1 m1 e1]"
    and zone: "getHostedZoneID ex2 d (EffectiveFQDN (GetChallengeInfo ex2 domain keyAuth)) = (Inr zone, tr)"
    and sub: "ExtractSubDomain ex2 (EffectiveFQDN (GetChallengeInfo ex2 domain keyAuth)) zone = Inr subDomain"
    and get: "RecordSets_Get ex2 (client_of d) (ResourceGroup (config d)) zone TXT subDomain = (rec1, None)"
  shows "\<exists>rec2. snd (Present ex2 range_order2 d domain token keyAuth) =
           tr @ [RecordSets_Get_call (client_of d) (ResourceGroup (config d)) zone TXT subDomain,
                 RecordSets_CreateOrUpdate_call (client_of d) (ResourceGroup (config d)) zone TXT
                   subDomain rec2 [] []]
         \<and> set (value_lists rec2) = set (value_lists rec1)
         \<and> count_list (value_lists rec2) [v] = 1"
proof -
  from Present_wrote [OF first] v1 obtain sub1 rset1 where
    rec1: "rec1 = rec_of d sub1 (txtRecords_of range_order1 (uniqRecords v rset1))"
    by auto
  define uniq1 where "uniq1 = uniqRecords v rset1"
  define uniq2 where "uniq2 = uniqRecords v rec1"
  define rec2 where "rec2 = rec_of d subDomain (txtRecords_of range_order2 uniq2)"
  have vals1: "value_lists rec1 = map (\<lambda>txt. [txt]) (range_order1 uniq1)"
    by (simp add: rec1 uniq1_def value_lists_rec_of)
  have vals2: "value_lists rec2 = map (\<lambda>txt. [txt]) (range_order2 uniq2)"
    by (simp add: rec2_def value_lists_rec_of)
  have v_in: "v \<in> set uniq1"
    by (simp add: uniq1_def set_uniqRecords)
  have "first_strings (value_lists rec1) = range_order1 uniq1"
    by (simp add: vals1 first_strings_def comp_def)
  then have "set uniq2 = insert v (set uniq1)"
    by (simp add: uniq2_def set_uniqRecords range_order_set [OF ro1])
  with v_in have same: "set uniq2 = set uniq1" by auto
  have eq: "set (value_lists rec2) = set (value_lists rec1)"
    by (simp add: vals1 vals2 range_order_set [OF ro1] range_order_set [OF ro2] same)
  have d2: "distinct (value_lists rec2)"
    by (simp add: vals2 distinct_map range_order_distinct [OF ro2] uniq2_def
        distinct_uniqRecords inj_on_def)
  have in2: "[v] \<in> set (value_lists rec2)"
    using v_in by (simp add: vals2 range_order_set [OF ro2] same)
  have tr2: "snd (Present ex2 range_order2 d domain token keyAuth) =
           tr @ [RecordSets_Get_call (client_of d) (ResourceGroup (config d)) zone TXT subDomain,
                 RecordSets_CreateOrUpdate_call (client_of d) (ResourceGroup (config d)) zone TXT
                   subDomain rec2 [] []]"
    by (simp add: Present_reaches_write [OF zone sub get _ refl] read_failure_def rec2_def
        uniq2_def v2)
  have cnt: "count_list (value_lists rec2) [v] = 1"
    using d2 in2 by (rule count_list_distinct)
  show ?thesis
    by (rule exI [of _ rec2]) (intro conjI tr2 eq cnt)
qed

theorem Present_twice_same_value_set_witness:
  "\<exists>rec2. snd (Present world_written (\<lambda>ks. ks) test_provider ''example.com'' ''tok'' ''c'') =
     [FindZoneByFqdn_call ''_acme-challenge.example.com.'',
      PrivateZones_Get_call (client_of test_provider) ''rg'' ''example.com''] @
     [RecordSets_Get_call (client_of test_provider) ''rg'' ''example.com'' TXT ''_acme-challenge'',
      RecordSets_CreateOrUpdate_call (client_of test_provider) ''rg'' ''example.com'' TXT
        ''_acme-challenge'' rec2 [] []]
   \<and> set (value_lists rec2) = {[''a''], [''b''], [''c'']}
   \<and> count_list (value_lists rec2) [''c''] = 1"
proof -
  have zone: "getHostedZoneID world_written test_provider
       (EffectiveFQDN (GetChallengeInfo world_written ''example.com'' ''c'')) =
     (Inr ''example.com'',
      [FindZoneByFqdn_call ''_acme-challenge.example.com.'',
       PrivateZones_Get_call (client_of test_provider) ''rg'' ''example.com''])"
    by (simp add: world_written_def test_defs)
  have sub: "ExtractSubDomain world_written
       (EffectiveFQDN (GetChallengeInfo world_written ''example.com'' ''c'')) ''example.com'' =
     Inr ''_acme-challenge''"
    by (simp add: world_written_def test_defs)
  have get: "RecordSets_Get world_written (client_of test_provider) (ResourceGroup (config test_provider))
       ''example.com'' TXT ''_acme-challenge'' = (txt_record_set [Some [''a''], Some [''b''], Some [''c'']], None)"
    by (simp add: world_written_def test_defs)
  have rg: "ResourceGroup (config test_provider) = ''rg''"
    by (simp add: test_provider_def)

  have first: "snd (Present world_ba rev test_provider ''example.com'' ''tok'' ''c'') =
     ([FindZoneByFqdn_call ''_acme-challenge.example.com.'',
      PrivateZones_Get_call (client_of test_provider) ''rg'' ''example.com''] @
      [RecordSets_Get_call (client_of test_provider) ''rg'' ''example.com'' TXT ''_acme-challenge'']) @
     [RecordSets_CreateOrUpdate_call (client_of test_provider) ''rg'' ''example.com'' TXT
        ''_acme-challenge'' (txt_record_set [Some [''a''], Some [''b''], Some [''c'']]) [] []]"
    by (simp add: world_ba_def run_defs test_defs)
  have v1: "ChallengeInfo.Value (GetChallengeInfo world_ba ''example.com'' ''c'') = ''c''"
    by (simp add: world_ba_def test_defs)
  have v2: "ChallengeInfo.Value (GetChallengeInfo world_written ''example.com'' ''c'') = ''c''"
    by (simp add: world_written_def test_defs)
  have vals: "set (value_lists (txt_record_set [Some [''a''], Some [''b''], Some [''c'']])) =
      {[''a''], [''b''], [''c'']}"
    by (simp add: value_lists_def test_defs)
  from Present_twice_same_value_set [OF is_range_order_rev is_range_order_id v1 v2 first zone sub get]
  show ?thesis unfolding rg vals by simp
qed

text \<open>
  C3. Let the zone and the subdomain be resolved and let the record read return an
  error \<open>e\<close>. If \<open>e\<close> is, or wraps, a \<open>DetailedError\<close> with status 404 (and the record
  set that comes with the failed read is the zero value, with nil properties), then
  \<open>Present\<close> goes on to the write, the record set written holds the challenge value and
  nothing else, and the result is the outcome of the write: no error of the read is
  returned. For any other \<open>e\<close>, \<open>Present\<close> returns \<open>e\<close> wrapped with \<open>azure: \<close> right
  after the read, and writes nothing.
\<close>

theorem not_found_read_is_absence:
  assumes ro: "is_range_order range_order"
    and zone: "getHostedZoneID ex d (EffectiveFQDN (GetChallengeInfo ex domain keyAuth)) = (Inr zone, tr)"
    and sub: "ExtractSubDomain ex (EffectiveFQDN (GetChallengeInfo ex domain keyAuth)) zone = Inr subDomain"
    and get: "RecordSets_Get ex (client_of d) (ResourceGroup (config d)) zone TXT subDomain = (rset, Some e)"
  shows "(errors_As_DetailedError e = Some 404 \<and> RecordSetProperties rset = None \<longrightarrow>
           (\<exists>rec. Present ex range_order d domain token keyAuth =
              (map_option (WrapError ''azure: '')
                 (RecordSets_CreateOrUpdate ex (client_of d) (ResourceGroup (config d)) zone TXT
                    subDomain rec [] []),
               tr @ [RecordSets_Get_call (client_of d) (ResourceGroup (config d)) zone TXT subDomain,
                     RecordSets_CreateOrUpdate_call (client_of d) (ResourceGroup (config d)) zone TXT
                       subDomain rec [] []])
            \<and> value_lists rec = [[ChallengeInfo.Value (GetChallengeInfo ex domain keyAuth)]]))
       \<and> (errors_As_DetailedError e \<noteq> Some 404 \<longrightarrow>
           Present ex range_order d domain token keyAuth =
             (Some (WrapError ''azure: '' e),
              tr @ [RecordSets_Get_call (client_of d) (ResourceGroup (config d)) zone TXT subDomain]))"
proof (intro conjI impI)
  assume a: "errors_As_DetailedError e = Some 404 \<and> RecordSetProperties rset = None"
  let ?v = "ChallengeInfo.Value (GetChallengeInfo ex domain keyAuth)"
  define rec where "rec = rec_of d subDomain (txtRecords_of range_order (uniqRecords ?v rset))"
  have rf: "read_failure (Some e) = None"
    using a by (simp add: read_failure_def StatusNotFound_def)
  have "uniqRecords ?v rset = [?v]"
    using a by (simp add: uniqRecords_def)
  then have "value_lists rec = [[?v]]"
    by (simp add: rec_def value_lists_rec_of range_order_singleton [OF ro])
  moreover have "Present ex range_order d domain token keyAuth =
              (map_option (WrapError ''azure: '')
                 (RecordSets_CreateOrUpdate ex (client_of d) (ResourceGroup (config d)) zone TXT
                    subDomain rec [] []),
               tr @ [RecordSets_Get_call (client_of d) (ResourceGroup (config d)) zone TXT subDomain,
                     RecordSets_CreateOrUpdate_call (client_of d) (ResourceGroup (config d)) zone TXT
                       subDomain rec [] []])"
    using Present_reaches_write [OF zone sub get rf rec_def]
    by (simp add: Errorf_azure_def [abs_def])
  ultimately show "\<exists>rec. Present ex range_order d domain token keyAuth =
              (map_option (WrapError ''azure: '')
                 (RecordSets_CreateOrUpdate ex (client_of d) (ResourceGroup (config d)) zone TXT
                    subDomain rec [] []),
               tr @ [RecordSets_Get_call (client_of d) (ResourceGroup (config d)) zone TXT subDomain,
                     RecordSets_CreateOrUpdate_call (client_of d) (ResourceGroup (config d)) zone TXT
                       subDomain rec [] []])
            \<and> value_lists rec = [[?v]]"
    by blast
next
  assume "errors_As_DetailedError e \<noteq> Some 404"
  then have "read_failure (Some e) = Some e"
    by (simp add: read_failure_def StatusNotFound_def)
  from Present_read_fails [OF zone sub get this]
  show "Present ex range_order d domain token keyAuth =
             (Some (WrapError ''azure: '' e),
              tr @ [RecordSets_Get_call (client_of d) (ResourceGroup (config d)) zone TXT subDomain])"
    by (simp add: Errorf_azure_def)
qed

theorem not_found_read_is_absence_witness:
  "(\<exists>rec. Present world_absent rev test_provider ''example.com'' ''tok'' ''key'' =
      (None,
       [FindZoneByFqdn_call ''_acme-challenge.example.com.'',
      PrivateZones_Get_call (client_of test_provider) ''rg'' ''example.com''] @
       [RecordSets_Get_call (client_of test_provider) ''rg'' ''example.com'' TXT ''_acme-challenge'',
        RecordSets_CreateOrUpdate_call (client_of test_provider) ''rg'' ''example.com'' TXT
        ''_acme-challenge'' rec [] []])
    \<and> value_lists rec = [[''key'']])
   \<and> Present world_unavailable rev test_provider ''example.com'' ''tok'' ''key'' =
      (Some (WrapError ''azure: '' (DetailedError 503 ''StatusCode=503'')),
       [FindZoneByFqdn_call ''_acme-challenge.example.com.'',
      PrivateZones_Get_call (client_of test_provider) ''rg'' ''example.com''] @
       [RecordSets_Get_call (client_of test_provider) ''rg'' ''example.com'' TXT ''_acme-challenge''])"
proof -
  have zone: "getHostedZoneID world_absent test_provider
       (EffectiveFQDN (GetChallengeInfo world_absent ''example.com'' ''key'')) =
     (Inr ''example.com'',
      [FindZoneByFqdn_call ''_acme-challenge.example.com.'',
       PrivateZones_Get_call (client_of test_provider) ''rg'' ''example.com''])"
    by (simp add: world_absent_def test_defs)
  have sub: "ExtractSubDomain world_absent
       (EffectiveFQDN (GetChallengeInfo world_absent ''example.com'' ''key'')) ''example.com'' =
     Inr ''_acme-challenge''"
    by (simp add: world_absent_def test_defs)
  have get: "RecordSets_Get world_absent (client_of test_provider) (ResourceGroup (config test_provider))
       ''example.com'' TXT ''_acme-challenge'' = (no_record_set, Some not_found)"
    by (simp add: world_absent_def test_defs)
  have rg: "ResourceGroup (config test_provider) = ''rg''"
    by (simp add: test_provider_def)

  have zone': "getHostedZoneID world_unavailable test_provider
       (EffectiveFQDN (GetChallengeInfo world_unavailable ''example.com'' ''key'')) =
     (Inr ''example.com'',
      [FindZoneByFqdn_call ''_acme-challenge.example.com.'',
       PrivateZones_Get_call (client_of test_provider) ''rg'' ''example.com''])"
    by (simp add: world_unavailable_def test_defs)
  have sub': "ExtractSubDomain world_unavailable
       (EffectiveFQDN (GetChallengeInfo world_unavailable ''example.com'' ''key'')) ''example.com'' =
     Inr ''_acme-challenge''"
    by (simp add: world_unavailable_def test_defs)
  have get': "RecordSets_Get world_unavailable (client_of test_provider)
       (ResourceGroup (config test_provider)) ''example.com'' TXT ''_acme-challenge'' =
       (no_record_set, Some (DetailedError 503 ''StatusCode=503''))"
    by (simp add: world_unavailable_def test_defs)
  have v: "ChallengeInfo.Value (GetChallengeInfo world_absent ''example.com'' ''key'') = ''key''"
    by (simp add: world_absent_def test_defs)
  have w: "\<And>rec. RecordSets_CreateOrUpdate world_absent (client_of test_provider) ''rg''
      ''example.com'' TXT ''_acme-challenge'' rec [] [] = None"
    by (simp add: world_absent_def test_defs)
  have nf: "errors_As_DetailedError not_found = Some 404" "RecordSetProperties no_record_set = None"
    by (simp_all add: not_found_def no_record_set_def)
  from not_found_read_is_absence [OF is_range_order_rev zone sub get, of "''tok''"]
       not_found_read_is_absence [OF is_range_order_rev zone' sub' get', of "''tok''"]
  show ?thesis unfolding rg v by (simp add: nf w)
qed

text \<open>
  C5. Whenever \<open>Present\<close> reaches the write, the value lists of the record set it writes
  are, as a set, the challenge value and the first string of every existing record that
  has a string, each as a one-element list. So a record of two or more strings
  contributes its first string only, and every written record holds one string.
\<close>

theorem merge_takes_first_string_only:
  assumes ro: "is_range_order range_order"
    and zone: "getHostedZoneID ex d (EffectiveFQDN (GetChallengeInfo ex domain keyAuth)) = (Inr zone, tr)"
    and sub: "ExtractSubDomain ex (EffectiveFQDN (GetChallengeInfo ex domain keyAuth)) zone = Inr subDomain"
    and get: "RecordSets_Get ex (client_of d) (ResourceGroup (config d)) zone TXT subDomain = (rset, err)"
    and rf: "read_failure err = None"
  shows "\<exists>rec. snd (Present ex range_order d domain token keyAuth) =
           tr @ [RecordSets_Get_call (client_of d) (ResourceGroup (config d)) zone TXT subDomain,
                 RecordSets_CreateOrUpdate_call (client_of d) (ResourceGroup (config d)) zone TXT
                   subDomain rec [] []]
         \<and> set (value_lists rec) =
             insert [ChallengeInfo.Value (GetChallengeInfo ex domain keyAuth)]
               ((\<lambda>vs. [hd vs]) ` {vs \<in> set (value_lists rset). vs \<noteq> []})
         \<and> (\<forall>vs \<in> set (value_lists rec). length vs = 1)"
proof -
  let ?v = "ChallengeInfo.Value (GetChallengeInfo ex domain keyAuth)"
  define rec where "rec = rec_of d subDomain (txtRecords_of range_order (uniqRecords ?v rset))"
  have vals: "value_lists rec = map (\<lambda>txt. [txt]) (range_order (uniqRecords ?v rset))"
    by (simp add: rec_def value_lists_rec_of)
  have tr: "snd (Present ex range_order d domain token keyAuth) =
           tr @ [RecordSets_Get_call (client_of d) (ResourceGroup (config d)) zone TXT subDomain,
                 RecordSets_CreateOrUpdate_call (client_of d) (ResourceGroup (config d)) zone TXT
                   subDomain rec [] []]"
    by (simp add: Present_reaches_write [OF zone sub get rf rec_def])
  have "set (value_lists rec) = (\<lambda>txt. [txt]) ` insert ?v (set (first_strings (value_lists rset)))"
    by (simp add: vals range_order_set [OF ro] set_uniqRecords)
  also have "\<dots> = insert [?v] ((\<lambda>vs. [hd vs]) ` {vs \<in> set (value_lists rset). vs \<noteq> []})"
    by (auto simp: first_strings_def)
  finally have eq: "set (value_lists rec) =
      insert [?v] ((\<lambda>vs. [hd vs]) ` {vs \<in> set (value_lists rset). vs \<noteq> []})" .
  have single: "\<forall>vs \<in> set (value_lists rec). length vs = 1"
    by (simp add: vals)
  show ?thesis
    by (rule exI [of _ rec]) (intro conjI tr eq single)
qed

theorem merge_takes_first_string_only_witness:
  "\<exists>rec. snd (Present world_multi rev test_provider ''example.com'' ''tok'' ''c'') =
     [FindZoneByFqdn_call ''_acme-challenge.example.com.'',
      PrivateZones_Get_call (client_of test_provider) ''rg'' ''example.com''] @
     [RecordSets_Get_call (client_of test_provider) ''rg'' ''example.com'' TXT ''_acme-challenge'',
      RecordSets_CreateOrUpdate_call (client_of test_provider) ''rg'' ''example.com'' TXT
        ''_acme-challenge'' rec [] []]
   \<and> set (value_lists rec) = {[''c''], [''b''], [''a'']}
   \<and> [''z''] \<notin> set (value_lists rec)"
proof -
  have zone: "getHostedZoneID world_multi test_provider
       (EffectiveFQDN (GetChallengeInfo world_multi ''example.com'' ''c'')) =
     (Inr ''example.com'',
      [FindZoneByFqdn_call ''_acme-challenge.example.com.'',
       PrivateZones_Get_call (client_of test_provider) ''rg'' ''example.com''])"
    by (simp add: world_multi_def test_defs)
  have sub: "ExtractSubDomain world_multi
       (EffectiveFQDN (GetChallengeInfo world_multi ''example.com'' ''c'')) ''example.com'' =
     Inr ''_acme-challenge''"
    by (simp add: world_multi_def test_defs)
  have get: "RecordSets_Get world_multi (client_of test_provider) (ResourceGroup (config test_provider))
       ''example.com'' TXT ''_acme-challenge'' = (txt_record_set [Some [''b''], Some [''a'', ''z''], None, Some []], None)"
    by (simp add: world_multi_def test_defs)
  have rg: "ResourceGroup (config test_provider) = ''rg''"
    by (simp add: test_provider_def)

  have rf: "read_failure None = None"
    by (simp add: read_failure_def)
  have v: "ChallengeInfo.Value (GetChallengeInfo world_multi ''example.com'' ''c'') = ''c''"
    by (simp add: world_multi_def test_defs)
  have firsts: "(\<lambda>vs. [hd vs]) ` {vs \<in> set (value_lists (txt_record_set [Some [''b''], Some [''a'', ''z''], None, Some []])). vs \<noteq> []} =
      {[''b''], [''a'']}"
    unfolding set_filter [symmetric] by (simp add: value_lists_def test_defs)
  from merge_takes_first_string_only [OF is_range_order_rev zone sub get rf, of "''tok''"]
  obtain rec where rec:
    "snd (Present world_multi rev test_provider ''example.com'' ''tok'' ''c'') =
       [FindZoneByFqdn_call ''_acme-challenge.example.com.'',
        PrivateZones_Get_call (client_of test_provider) ''rg'' ''example.com''] @
       [RecordSets_Get_call (client_of test_provider) ''rg'' ''example.com'' TXT ''_acme-challenge'',
        RecordSets_CreateOrUpdate_call (client_of test_provider) ''rg'' ''example.com'' TXT
          ''_acme-challenge'' rec [] []]"
    "set (value_lists rec) = insert [''c''] {[''b''], [''a'']}"
    unfolding rg v firsts by blast
  from rec(2) have "[''z''] \<notin> set (value_lists rec)"
    by simp
  with rec show ?thesis
    by (intro exI [of _ rec]) simp
qed

text \<open>
  C10. Whenever \<open>Present\<close> reaches the write, the merge adds no failure of its own: the
  result is the outcome of the write, and the written record set holds the challenge
  value, so it is not empty. With nil properties, or with a nil list of TXT records, it
  holds the challenge value alone. Otherwise it holds the challenge value and the first
  strings of the records whose value list is neither nil nor empty: a record with a nil
  or an empty value list contributes nothing.
\<close>

theorem merge_skips_nil_and_empty:
  assumes ro: "is_range_order range_order"
    and zone: "getHostedZoneID ex d (EffectiveFQDN (GetChallengeInfo ex domain keyAuth)) = (Inr zone, tr)"
    and sub: "ExtractSubDomain ex (EffectiveFQDN (GetChallengeInfo ex domain keyAuth)) zone = Inr subDomain"
    and get: "RecordSets_Get ex (client_of d) (ResourceGroup (config d)) zone TXT subDomain = (rset, err)"
    and rf: "read_failure err = None"
    and v: "ChallengeInfo.Value (GetChallengeInfo ex domain keyAuth) = v"
  shows "\<exists>rec. Present ex range_order d domain token keyAuth =
           (map_option (WrapError ''azure: '')
              (RecordSets_CreateOrUpdate ex (client_of d) (ResourceGroup (config d)) zone TXT
                 subDomain rec [] []),
            tr @ [RecordSets_Get_call (client_of d) (ResourceGroup (config d)) zone TXT subDomain,
                  RecordSets_CreateOrUpdate_call (client_of d) (ResourceGroup (config d)) zone TXT
                    subDomain rec [] []])
         \<and> [v] \<in> set (value_lists rec) \<and> value_lists rec \<noteq> []
         \<and> (RecordSetProperties rset = None \<longrightarrow> value_lists rec = [[v]])
         \<and> (\<forall>props. RecordSetProperties rset = Some props \<and> TxtRecords props = None \<longrightarrow>
               value_lists rec = [[v]])
         \<and> (\<forall>props recs. RecordSetProperties rset = Some props \<and> TxtRecords props = Some recs \<longrightarrow>
               set (value_lists rec) =
                 insert [v] ((\<lambda>r. [hd (the (TxtRecord.Value r))]) `
                   {r \<in> set recs. TxtRecord.Value r \<noteq> None \<and> TxtRecord.Value r \<noteq> Some []}))"
proof -
  define rec where "rec = rec_of d subDomain (txtRecords_of range_order (uniqRecords v rset))"
  have vals: "value_lists rec = map (\<lambda>txt. [txt]) (range_order (uniqRecords v rset))"
    by (simp add: rec_def value_lists_rec_of)
  have run: "Present ex range_order d domain token keyAuth =
           (map_option (WrapError ''azure: '')
              (RecordSets_CreateOrUpdate ex (client_of d) (ResourceGroup (config d)) zone TXT
                 subDomain rec [] []),
            tr @ [RecordSets_Get_call (client_of d) (ResourceGroup (config d)) zone TXT subDomain,
                  RecordSets_CreateOrUpdate_call (client_of d) (ResourceGroup (config d)) zone TXT
                    subDomain rec [] []])"
    using Present_reaches_write [OF zone sub get rf refl, of range_order token]
    by (simp add: rec_def v Errorf_azure_def [abs_def])
  have setv: "set (value_lists rec) = (\<lambda>txt. [txt]) ` insert v (set (first_strings (value_lists rset)))"
    by (simp add: vals range_order_set [OF ro] set_uniqRecords)
  have mem: "[v] \<in> set (value_lists rec)"
    by (simp add: setv)
  then have ne: "value_lists rec \<noteq> []"
    by auto
  have none1: "RecordSetProperties rset = None \<longrightarrow> value_lists rec = [[v]]"
    by (simp add: vals uniqRecords_def range_order_singleton [OF ro])
  have none2: "\<forall>props. RecordSetProperties rset = Some props \<and> TxtRecords props = None \<longrightarrow>
               value_lists rec = [[v]]"
    by (simp add: vals uniqRecords_def range_order_singleton [OF ro])
  have some: "\<forall>props recs. RecordSetProperties rset = Some props \<and> TxtRecords props = Some recs \<longrightarrow>
               set (value_lists rec) =
                 insert [v] ((\<lambda>r. [hd (the (TxtRecord.Value r))]) `
                   {r \<in> set recs. TxtRecord.Value r \<noteq> None \<and> TxtRecord.Value r \<noteq> Some []})"
  proof (intro allI impI)
    fix props recs
    assume a: "RecordSetProperties rset = Some props \<and> TxtRecords props = Some recs"
    then have vl: "value_lists rset = map (\<lambda>r. to_StringSlice (TxtRecord.Value r)) recs"
      by (simp add: value_lists_def)
    have "set (first_strings (value_lists rset)) =
        (\<lambda>r. hd (the (TxtRecord.Value r))) `
           {r \<in> set recs. TxtRecord.Value r \<noteq> None \<and> TxtRecord.Value r \<noteq> Some []}"
      unfolding vl by (rule first_strings_of_records)
    then show "set (value_lists rec) =
                 insert [v] ((\<lambda>r. [hd (the (TxtRecord.Value r))]) `
                   {r \<in> set recs. TxtRecord.Value r \<noteq> None \<and> TxtRecord.Value r \<noteq> Some []})"
      unfolding setv by (simp add: image_image)
  qed
  show ?thesis
    by (rule exI [of _ rec]) (intro conjI run mem ne none1 none2 some)
qed

theorem merge_skips_nil_and_empty_witness:
  "\<exists>rec. Present world_multi rev test_provider ''example.com'' ''tok'' ''c'' =
     (None,
      [FindZoneByFqdn_call ''_acme-challenge.example.com.'',
      PrivateZones_Get_call (client_of test_provider) ''rg'' ''example.com''] @
      [RecordSets_Get_call (client_of test_provider) ''rg'' ''example.com'' TXT ''_acme-challenge'',
       RecordSets_CreateOrUpdate_call (client_of test_provider) ''rg'' ''example.com'' TXT
        ''_acme-challenge'' rec [] []])
   \<and> [''c''] \<in> set (value_lists rec) \<and> value_lists rec \<noteq> []
   \<and> set (value_lists rec) = {[''c''], [''b''], [''a'']}"
proof -
  have zone: "getHostedZoneID world_multi test_provider
       (EffectiveFQDN (GetChallengeInfo world_multi ''example.com'' ''c'')) =
     (Inr ''example.com'',
      [FindZoneByFqdn_call ''_acme-challenge.example.com.'',
       PrivateZones_Get_call (client_of test_provider) ''rg'' ''example.com''])"
    by (simp add: world_multi_def test_defs)
  have sub: "ExtractSubDomain world_multi
       (EffectiveFQDN (GetChallengeInfo world_multi ''example.com'' ''c'')) ''example.com'' =
     Inr ''_acme-challenge''"
    by (simp add: world_multi_def test_defs)
  have get: "RecordSets_Get world_multi (client_of test_provider) (ResourceGroup (config test_provider))
       ''example.com'' TXT ''_acme-challenge'' = (txt_record_set [Some [''b''], Some [''a'', ''z''], None, Some []], None)"
    by (simp add: world_multi_def test_defs)
  have rg: "ResourceGroup (config test_provider) = ''rg''"
    by (simp add: test_provider_def)

  have rf: "read_failure None = None"
    by (simp add: read_failure_def)
  have v: "ChallengeInfo.Value (GetChallengeInfo world_multi ''example.com'' ''c'') = ''c''"
    by (simp add: world_multi_def test_defs)
  have w: "\<And>rec. RecordSets_CreateOrUpdate world_multi (client_of test_provider) ''rg''
      ''example.com'' TXT ''_acme-challenge'' rec [] [] = None"
    by (simp add: world_multi_def test_defs)
  have props: "RecordSetProperties (txt_record_set [Some [''b''], Some [''a'', ''z''], None, Some []]) =
      Some \<lparr>RecordSetProperties.TTL = Some 60,
            TxtRecords = Some [\<lparr>TxtRecord.Value = Some [''b'']\<rparr>,
              \<lparr>TxtRecord.Value = Some [''a'', ''z'']\<rparr>, \<lparr>TxtRecord.Value = None\<rparr>,
              \<lparr>TxtRecord.Value = Some []\<rparr>]\<rparr>"
    by (simp add: txt_record_set_def)
  have firsts: "(\<lambda>r. [hd (the (TxtRecord.Value r))]) `
      {r \<in> set [\<lparr>TxtRecord.Value = Some [''b'']\<rparr>,
              \<lparr>TxtRecord.Value = Some [''a'', ''z'']\<rparr>, \<lparr>TxtRecord.Value = None\<rparr>,
              \<lparr>TxtRecord.Value = Some []\<rparr>].
         TxtRecord.Value r \<noteq> None \<and> TxtRecord.Value r \<noteq> Some []} = {[''b''], [''a'']}"
    unfolding set_filter [symmetric] by simp
  from merge_skips_nil_and_empty [OF is_range_order_rev zone sub get rf v, of "''tok''"]
  obtain rec where rec:
    "Present world_multi rev test_provider ''example.com'' ''tok'' ''c'' =
       (None,
        [FindZoneByFqdn_call ''_acme-challenge.example.com.'',
      PrivateZones_Get_call (client_of test_provider) ''rg'' ''example.com''] @
        [RecordSets_Get_call (client_of test_provider) ''rg'' ''example.com'' TXT ''_acme-challenge'',
         RecordSets_CreateOrUpdate_call (client_of test_provider) ''rg'' ''example.com'' TXT
        ''_acme-challenge'' rec [] []])"
    "[''c''] \<in> set (value_lists rec)" "value_lists rec \<noteq> []"
    "\<forall>props recs. RecordSetProperties (txt_record_set [Some [''b''], Some [''a'', ''z''], None, Some []]) = Some props \<and> TxtRecords props = Some recs \<longrightarrow>
       set (value_lists rec) =
         insert [''c''] ((\<lambda>r. [hd (the (TxtRecord.Value r))]) `
           {r \<in> set recs. TxtRecord.Value r \<noteq> None \<and> TxtRecord.Value r \<noteq> Some []})"
    unfolding rg w by auto
  have txts: "TxtRecords \<lparr>RecordSetProperties.TTL = Some 60,
            TxtRecords = Some [\<lparr>TxtRecord.Value = Some [''b'']\<rparr>,
              \<lparr>TxtRecord.Value = Some [''a'', ''z'']\<rparr>, \<lparr>TxtRecord.Value = None\<rparr>,
              \<lparr>TxtRecord.Value = Some []\<rparr>]\<rparr> =
          Some [\<lparr>TxtRecord.Value = Some [''b'']\<rparr>,
              \<lparr>TxtRecord.Value = Some [''a'', ''z'']\<rparr>, \<lparr>TxtRecord.Value = None\<rparr>,
              \<lparr>TxtRecord.Value = Some []\<rparr>]"
    by simp
  have "set (value_lists rec) = {[''c''], [''b''], [''a'']}"
    using rec(4) [rule_format, OF conjI [OF props txts]] unfolding firsts .
  with rec(1-3) show ?thesis by blast
qed

subsection \<open>CleanUp\<close>

text \<open>
  C7, as amended. Once the zone and the subdomain are resolved, \<open>CleanUp\<close> issues one
  delete and returns that call's outcome: success exactly when the delete endpoint
  reports no error, and otherwise the endpoint's error wrapped with \<open>azure: \<close>.
  \<open>CleanUp\<close> reads nothing and does not look at the kind of the error, so it succeeds
  on a name without a record set exactly when the endpoint answers such a delete
  without an error.
\<close>

theorem CleanUp_returns_delete_outcome:
  assumes "getHostedZoneID ex d (EffectiveFQDN (GetChallengeInfo ex domain keyAuth)) = (Inr zone, tr)"
    and "ExtractSubDomain ex (EffectiveFQDN (GetChallengeInfo ex domain keyAuth)) zone = Inr subDomain"
  shows "CleanUp ex d domain token keyAuth =
     (map_option (WrapError ''azure: '')
        (RecordSets_Delete ex (client_of d) (ResourceGroup (config d)) zone TXT subDomain []),
      tr @ [RecordSets_Delete_call (client_of d) (ResourceGroup (config d)) zone TXT subDomain []])
   \<and> (fst (CleanUp ex d domain token keyAuth) = None) =
       (RecordSets_Delete ex (client_of d) (ResourceGroup (config d)) zone TXT subDomain [] = None)"
  using CleanUp_reaches_delete [OF assms, of token]
  by (simp add: Errorf_azure_def [abs_def])

theorem CleanUp_returns_delete_outcome_witness:
  "CleanUp world_ba test_provider ''example.com'' ''tok'' ''c'' =
     (None,
      [FindZoneByFqdn_call ''_acme-challenge.example.com.'',
      PrivateZones_Get_call (client_of test_provider) ''rg'' ''example.com''] @
      [RecordSets_Delete_call (client_of test_provider) ''rg'' ''example.com'' TXT ''_acme-challenge'' []])"
proof -
  have zone: "getHostedZoneID world_ba test_provider
       (EffectiveFQDN (GetChallengeInfo world_ba ''example.com'' ''c'')) =
     (Inr ''example.com'',
      [FindZoneByFqdn_call ''_acme-challenge.example.com.'',
       PrivateZones_Get_call (client_of test_provider) ''rg'' ''example.com''])"
    by (simp add: world_ba_def test_defs)
  have sub: "ExtractSubDomain world_ba
       (EffectiveFQDN (GetChallengeInfo world_ba ''example.com'' ''c'')) ''example.com'' =
     Inr ''_acme-challenge''"
    by (simp add: world_ba_def test_defs)
  have get: "RecordSets_Get world_ba (client_of test_provider) (ResourceGroup (config test_provider))
       ''example.com'' TXT ''_acme-challenge'' = (txt_record_set [Some [''b''], Some [''a'']], None)"
    by (simp add: world_ba_def test_defs)
  have rg: "ResourceGroup (config test_provider) = ''rg''"
    by (simp add: test_provider_def)

  have del: "RecordSets_Delete world_ba (client_of test_provider) ''rg'' ''example.com'' TXT
      ''_acme-challenge'' [] = None"
    by (simp add: world_ba_def test_defs)
  from CleanUp_returns_delete_outcome [OF zone sub, of "''tok''"]
  show ?thesis unfolding rg del by simp
qed

text \<open>
  C7 as stated fails: where no record set exists (the read answers 404) and the delete
  endpoint answers 404 as well, \<open>CleanUp\<close> returns that error.
\<close>

theorem CleanUp_on_absence_counterexample:
  "RecordSets_Get world_missing (client_of test_provider) ''rg'' ''example.com'' TXT ''_acme-challenge'' =
     (no_record_set, Some not_found)
   \<and> errors_As_DetailedError not_found = Some StatusNotFound
   \<and> fst (CleanUp world_missing test_provider ''example.com'' ''tok'' ''key'') =
       Some (WrapError ''azure: '' not_found)"
  by (simp add: world_missing_def CleanUp_def Errorf_azure_def StatusNotFound_def test_defs)

subsection \<open>Errors\<close>

text \<open>
  C8. With the subdomain extraction of the specification: when the zone is resolved and
  stripping the zone from the effective FQDN leaves an empty relative name, or the FQDN
  does not extend the zone name, then \<open>Present\<close> and \<open>CleanUp\<close> both return the
  extraction's error wrapped with \<open>azure: \<close>, and their trace is the trace of the zone
  resolution, which holds no record read, write or delete.
\<close>

theorem subdomain_failure_stops_before_records:
  assumes spec: "ExtractSubDomain ex = ExtractSubDomain_spec"
    and zone: "getHostedZoneID ex d (EffectiveFQDN (GetChallengeInfo ex domain keyAuth)) = (Inr zone, tr)"
    and bad: "strip_zone_suffix (EffectiveFQDN (GetChallengeInfo ex domain keyAuth)) zone = None
              \<or> strip_zone_suffix (EffectiveFQDN (GetChallengeInfo ex domain keyAuth)) zone = Some []"
  shows "\<exists>e. Present ex range_order d domain token keyAuth = (Some (WrapError ''azure: '' e), tr)
           \<and> CleanUp ex d domain token keyAuth = (Some (WrapError ''azure: '' e), tr)
           \<and> filter is_record_call tr = []"
proof -
  let ?fqdn = "EffectiveFQDN (GetChallengeInfo ex domain keyAuth)"
  from bad obtain e where e: "ExtractSubDomain ex ?fqdn zone = Inl e"
    by (auto simp: spec ExtractSubDomain_spec_def)
  have "Present ex range_order d domain token keyAuth = (Some (WrapError ''azure: '' e), tr)"
    using Present_no_subdomain [OF zone e] by (simp add: Errorf_azure_def)
  moreover have "CleanUp ex d domain token keyAuth = (Some (WrapError ''azure: '' e), tr)"
    using CleanUp_no_subdomain [OF zone e] by (simp add: Errorf_azure_def)
  moreover note getHostedZoneID_no_record_call [OF zone]
  ultimately show ?thesis by blast
qed

theorem subdomain_failure_stops_before_records_witness:
  "(\<exists>e. Present world_foreign_zone rev test_provider ''example.com'' ''tok'' ''key'' =
        (Some (WrapError ''azure: '' e), [])
      \<and> CleanUp world_foreign_zone test_provider ''example.com'' ''tok'' ''key'' =
        (Some (WrapError ''azure: '' e), []))
   \<and> (\<exists>e. Present world_apex_zone rev test_provider ''example.com'' ''tok'' ''key'' =
        (Some (WrapError ''azure: '' e), [])
      \<and> CleanUp world_apex_zone test_provider ''example.com'' ''tok'' ''key'' =
        (Some (WrapError ''azure: '' e), []))"
proof -
  have spec: "ExtractSubDomain world_foreign_zone = ExtractSubDomain_spec"
    by (simp add: world_foreign_zone_def test_world_def)
  have zone: "getHostedZoneID world_foreign_zone test_provider
       (EffectiveFQDN (GetChallengeInfo world_foreign_zone ''example.com'' ''key'')) =
     (Inr ''example.org'', [])"
    by (simp add: world_foreign_zone_def test_defs)
  have bad: "strip_zone_suffix
       (EffectiveFQDN (GetChallengeInfo world_foreign_zone ''example.com'' ''key'')) ''example.org'' = None
     \<or> strip_zone_suffix
       (EffectiveFQDN (GetChallengeInfo world_foreign_zone ''example.com'' ''key'')) ''example.org'' = Some []"
    by (simp add: world_foreign_zone_def test_defs)
  have spec': "ExtractSubDomain world_apex_zone = ExtractSubDomain_spec"
    by (simp add: world_apex_zone_def test_world_def)
  have zone': "getHostedZoneID world_apex_zone test_provider
       (EffectiveFQDN (GetChallengeInfo world_apex_zone ''example.com'' ''key'')) =
     (Inr ''_acme-challenge.example.com'', [])"
    by (simp add: world_apex_zone_def test_defs)
  have bad': "strip_zone_suffix
       (EffectiveFQDN (GetChallengeInfo world_apex_zone ''example.com'' ''key''))
       ''_acme-challenge.example.com'' = None
     \<or> strip_zone_suffix
       (EffectiveFQDN (GetChallengeInfo world_apex_zone ''example.com'' ''key''))
       ''_acme-challenge.example.com'' = Some []"
    by (simp add: world_apex_zone_def test_defs)
  from subdomain_failure_stops_before_records [OF spec zone bad, of rev "''tok''"]
       subdomain_failure_stops_before_records [OF spec' zone' bad', of rev "''tok''"]
  show ?thesis by simp
qed



end
